theory Spec2Isabelle
  imports Main
begin

section \<open>Wire types (lib/types.ts)\<close>

text \<open>
  The session description and the ICE candidate are opaque payloads of the browser's
  media stack; only their fields are carried around.
\<close>

record RTCSessionDescriptionInit =
  sdp_type :: string
  sdp :: string

record RTCIceCandidateInit =
  candidate :: string
  sdpMid :: "string option"
  sdpMLineIndex :: "nat option"

text \<open>The frames a client may send, one constructor per member of \<^verbatim>\<open>ClientEvent\<close>.\<close>

datatype ClientEvent =
    ClientPing
  | ClientSelectRoom string
  | ClientSelectAdmin string
  | ClientSelectMaster string "string option"
  | ClientSendText string
  | ClientCallStart
  | ClientCallAccept string
  | ClientCallReject string
  | ClientCallOffer string RTCSessionDescriptionInit
  | ClientCallAnswer string RTCSessionDescriptionInit
  | ClientCallIce string RTCIceCandidateInit
  | ClientCallEnd string

text \<open>
  The text \<^verbatim>\<open>JSON.stringify(payload)\<close> is kept symbolic: the wire holds the
  serialisation of a payload, not the payload.
\<close>

datatype json_text = JSON_stringify ClientEvent

section \<open>The browser's WebSocket\<close>

datatype ReadyState = CONNECTING | OPEN | CLOSING | CLOSED

record WebSocket =
  readyState :: ReadyState
  wire :: "json_text list"

datatype exn = InvalidStateError

text \<open>
  \<^verbatim>\<open>WebSocket.send(data)\<close> of the browser: it throws while the socket is still
  connecting, transmits when the socket is open, and silently discards the data once
  the socket is closing or closed. The result is the exception thrown, if any, and
  the socket afterwards.
\<close>

definition WebSocket_send :: "json_text \<Rightarrow> WebSocket \<Rightarrow> exn option \<times> WebSocket" where
  "WebSocket_send data s =
     (case readyState s of
        CONNECTING \<Rightarrow> (Some InvalidStateError, s)
      | OPEN \<Rightarrow> (None, s\<lparr>wire := wire s @ [data]\<rparr>)
      | CLOSING \<Rightarrow> (None, s)
      | CLOSED \<Rightarrow> (None, s))"

section \<open>useChatSocket: the transport session\<close>

text \<open>
  \<^verbatim>\<open>send\<close> reads \<^verbatim>\<open>wsRef.current\<close> and writes only to an open socket;
  otherwise it logs a console warning and returns. It acts on the content of
  \<^verbatim>\<open>wsRef\<close>, which is all of the hook's state it touches.
\<close>

definition send :: "ClientEvent \<Rightarrow> WebSocket option \<Rightarrow> exn option \<times> WebSocket option" where
  "send payload wsRef_current =
     (case wsRef_current of
        None \<Rightarrow> (None, None)
      | Some s \<Rightarrow>
          if readyState s = OPEN
          then (case WebSocket_send (JSON_stringify payload) s of (e, s') \<Rightarrow> (e, Some s'))
          else (None, Some s))"

subsection \<open>Server events (lib/types.ts)\<close>

record ChatUser =
  user_name :: string
  user_userName :: string
  user_phone :: "string option"

text \<open>
  An entry of a \<^verbatim>\<open>chatrooms\<close> list. \<^verbatim>\<open>admin_id\<close> is not part of the declared
  type; the \<^verbatim>\<open>admin_selected\<close> branch reads it through \<^verbatim>\<open>(c as any)\<close>.
\<close>

record Chatroom =
  room_role :: string
  chat_id :: string
  user_id :: string
  admin_id :: "string option"
  is_user_active :: bool
  is_superadmin_active :: bool
  updated_time :: string
  room_type :: "string option"
  room_user :: "ChatUser option"

record HierarchyPerson =
  person_id :: string
  person_name :: string
  person_userName :: string
  person_phone :: "string option"

type_synonym HierarchyAdmin = HierarchyPerson
type_synonym HierarchyMaster = HierarchyPerson

datatype Hierarchy =
    HierarchySuperadmin "HierarchyAdmin list"
  | HierarchyAdminMasters "HierarchyMaster list"

record MessageMeta =
  meta_domain :: "string option"
  meta_reason :: "string option"

text \<open>
  A frame of type \<^verbatim>\<open>message\<close> as parsed: the union of \<^verbatim>\<open>ServerTextMessage\<close>,
  \<^verbatim>\<open>ServerFileMessage\<close> and \<^verbatim>\<open>ServerAudioMessage\<close>, with the fields a variant
  lacks absent (\<open>None\<close>). The handler branches on \<^verbatim>\<open>is_file\<close> and \<^verbatim>\<open>kind\<close>.
\<close>

record ServerMessage =
  msg_from :: string
  msg_is_file :: "bool option"
  msg_kind :: "string option"
  msg_message :: "string option"
  msg_meta :: "MessageMeta option"
  msg_file_url :: "string option"
  msg_file_name :: "string option"
  msg_file_type :: "string option"
  msg_audio_url :: "string option"
  msg_audio_name :: "string option"
  msg_audio_type :: "string option"
  msg_message_id :: string
  msg_chat_id :: string
  msg_created_time :: string

datatype CallEvent =
    ServerCallIncoming string string string string string
  | ServerCallRinging string string
  | ServerCallAccepted string string
  | ServerCallOffer string string RTCSessionDescriptionInit
  | ServerCallAnswer string string RTCSessionDescriptionInit
  | ServerCallIce string string RTCIceCandidateInit
  | ServerCallEnded string string
  | ServerCallError string

text \<open>
  \<^verbatim>\<open>ServerEvent\<close>. \<open>ServerJoinedAdminList\<close> carries \<^verbatim>\<open>needs_selection\<close>,
  \<^verbatim>\<open>hierarchy\<close> and \<^verbatim>\<open>chatrooms\<close>; \<open>ServerAdminSelected\<close> carries
  \<^verbatim>\<open>admin_id\<close>, \<^verbatim>\<open>chatrooms\<close> and \<^verbatim>\<open>masters\<close>; \<open>ServerMasterSelected\<close>
  carries \<^verbatim>\<open>master_id\<close> and \<^verbatim>\<open>chatrooms\<close>.
\<close>

datatype ServerEvent =
    ServerJoinedUser string
  | ServerJoinedAdminList bool "Hierarchy option" "Chatroom list"
  | ServerSelected string
  | ServerAdminSelected string "Chatroom list" "HierarchyMaster list"
  | ServerMasterSelected string "Chatroom list"
  | ServerPong
  | ServerMessageEvent ServerMessage
  | ServerError string
  | ServerCall CallEvent

subsection \<open>Conversation items\<close>

text \<open>
  \<^verbatim>\<open>ConversationItem\<close>, with the fields the socket fills in: sender, payload,
  \<^verbatim>\<open>created_at\<close> and \<^verbatim>\<open>message_id\<close> (and \<^verbatim>\<open>meta\<close> for a text). The optional
  \<^verbatim>\<open>status\<close> is never set by the socket and is left out.
\<close>

datatype ConversationItem =
    TextItem string "string option" string "string option" "MessageMeta option"
  | FileItem string "string option" "string option" "string option" string "string option"
  | AudioItem string "string option" "string option" "string option" string "string option"

fun message_id :: "ConversationItem \<Rightarrow> string option" where
  "message_id (TextItem frm txt created mid meta) = mid"
| "message_id (FileItem frm url name ty created mid) = mid"
| "message_id (AudioItem frm url name ty created mid) = mid"

subsection \<open>The hook's state\<close>

datatype Status = StatusIdle | StatusConnecting | StatusOpen | StatusClosed

text \<open>
  The state cells and refs of \<^verbatim>\<open>useChatSocket\<close>, and the browser's timers:
  \<open>intervals\<close> are the handles of the running keepalive intervals, \<open>timeouts\<close> the
  delays (in ms) of the pending \<^verbatim>\<open>setTimeout(connect, delay)\<close> calls, in the order they
  were scheduled, and \<open>next_handle\<close> the handle the next \<^verbatim>\<open>setInterval\<close> returns.
\<close>

record ChatSocket =
  status :: Status
  chatId :: "string option"
  needsSelection :: bool
  chatrooms :: "Chatroom list"
  hierarchy :: "Hierarchy option"
  selectedAdminId :: "string option"
  selectedMasterId :: "string option"
  masters :: "HierarchyMaster list"
  initialPersonalChatrooms :: "Chatroom list"
  messages :: "ConversationItem list"
  callEvent :: "CallEvent option"
  wsRef :: "WebSocket option"
  retryRef :: nat
  keepAliveRef :: "nat option"
  intervals :: "nat list"
  timeouts :: "nat list"
  next_handle :: nat

definition initial_ChatSocket :: ChatSocket where
  "initial_ChatSocket =
     \<lparr>status = StatusIdle, chatId = None, needsSelection = False, chatrooms = [],
      hierarchy = None, selectedAdminId = None, selectedMasterId = None, masters = [],
      initialPersonalChatrooms = [], messages = [], callEvent = None, wsRef = None,
      retryRef = 0, keepAliveRef = None, intervals = [], timeouts = [], next_handle = 1\<rparr>"

text \<open>
  What the callbacks made by one call of \<^verbatim>\<open>connect\<close> have captured: \<^verbatim>\<open>connect\<close> is
  memoised on the token alone, so its handlers see the token and the
  \<^verbatim>\<open>initialPersonalChatrooms\<close> of the render that created it.
\<close>

record ConnectClosure =
  cc_token :: string
  cc_initialPersonalChatrooms :: "Chatroom list"

text \<open>\<^verbatim>\<open>if (keepAliveRef.current) clearInterval(keepAliveRef.current)\<close>; handle 0 is falsy.\<close>

definition clearKeepAlive :: "ChatSocket \<Rightarrow> ChatSocket" where
  "clearKeepAlive s =
     (case keepAliveRef s of
        None \<Rightarrow> s
      | Some h \<Rightarrow> if h = 0 then s else s\<lparr>intervals := removeAll h (intervals s)\<rparr>)"

text \<open>
  \<^verbatim>\<open>connect\<close>: nothing without a token (the URL is empty exactly then); otherwise
  the status becomes connecting and a new socket is stored in \<^verbatim>\<open>wsRef\<close>.
\<close>

definition connect :: "ConnectClosure \<Rightarrow> ChatSocket \<Rightarrow> ChatSocket" where
  "connect c s =
     (if cc_token c = [] then s
      else s\<lparr>status := StatusConnecting,
             wsRef := Some \<lparr>readyState = CONNECTING, wire = []\<rparr>\<rparr>)"

text \<open>\<^verbatim>\<open>ws.onopen\<close>.\<close>

definition onopen :: "ChatSocket \<Rightarrow> ChatSocket" where
  "onopen s =
     s\<lparr>status := StatusOpen,
       retryRef := 0,
       keepAliveRef := Some (next_handle s),
       intervals := intervals s @ [next_handle s],
       next_handle := Suc (next_handle s)\<rparr>"

text \<open>The keepalive callback: \<^verbatim>\<open>send({ type: "ping" })\<close>.\<close>

definition keepAlive_tick :: "ChatSocket \<Rightarrow> exn option \<times> ChatSocket" where
  "keepAlive_tick s = (case send ClientPing (wsRef s) of (e, w) \<Rightarrow> (e, s\<lparr>wsRef := w\<rparr>))"

text \<open>\<^verbatim>\<open>ws.onclose\<close>.\<close>

definition onclose :: "ChatSocket \<Rightarrow> ChatSocket" where
  "onclose s =
     (let s1 = clearKeepAlive (s\<lparr>status := StatusClosed\<rparr>) in
      if retryRef s1 < 5 then
        (let delay = min (1000 * 2 ^ retryRef s1) 15000 in
         s1\<lparr>retryRef := retryRef s1 + 1, timeouts := timeouts s1 @ [delay]\<rparr>)
      else s1)"

text \<open>
  \<^verbatim>\<open>ws.onerror\<close> asks the browser to close the socket; the browser then fires the
  close handler.
\<close>

definition onerror :: "ChatSocket \<Rightarrow> ChatSocket" where
  "onerror s =
     (case wsRef s of
        None \<Rightarrow> s
      | Some w \<Rightarrow> s\<lparr>wsRef := Some (w\<lparr>readyState := CLOSING\<rparr>)\<rparr>)"

subsection \<open>Inbound frames\<close>

text \<open>
  The updater passed to \<^verbatim>\<open>setMessages\<close> in the \<^verbatim>\<open>message\<close> branch: a message whose
  \<^verbatim>\<open>message_id\<close> is already in the collection leaves it as it is; a file message of a
  kind other than file and audio falls through to the final \<^verbatim>\<open>return prev\<close>.
\<close>

definition appendMessage :: "ServerMessage \<Rightarrow> ConversationItem list \<Rightarrow> ConversationItem list" where
  "appendMessage m prev =
     (let messageId = msg_message_id m;
          exists = list_ex (\<lambda>msg. message_id msg = Some messageId) prev
      in if exists then prev
         else if msg_is_file m = Some True then
           (if msg_kind m = Some ''file'' then
              prev @ [FileItem (msg_from m) (msg_file_url m) (msg_file_name m) (msg_file_type m)
                        (msg_created_time m) (Some (msg_message_id m))]
            else if msg_kind m = Some ''audio'' then
              prev @ [AudioItem (msg_from m) (msg_audio_url m) (msg_audio_name m) (msg_audio_type m)
                        (msg_created_time m) (Some (msg_message_id m))]
            else prev)
         else
           prev @ [TextItem (msg_from m) (msg_message m) (msg_created_time m)
                     (Some (msg_message_id m)) (msg_meta m)])"

text \<open>
  \<^verbatim>\<open>[...rooms].sort((a, b) => new Date(b.updated_time).getTime() - new Date(a.updated_time).getTime())\<close>:
  a stable sort, most recent first. \<open>getTime\<close> stands for the browser's parsing of a
  date string into milliseconds, taken as a parameter; dates that do not parse are outside
  the model.
\<close>

definition sortChatrooms :: "(string \<Rightarrow> int) \<Rightarrow> Chatroom list \<Rightarrow> Chatroom list" where
  "sortChatrooms getTime rooms = sort_key (\<lambda>c. - getTime (updated_time c)) rooms"

definition is_staff_bot :: "Chatroom \<Rightarrow> bool" where
  "is_staff_bot c = (room_type c = Some ''staff_bot'')"

text \<open>\<^verbatim>\<open>(c as any).admin_id || (c as any).user_id\<close>: an absent or empty admin id is falsy.\<close>

definition adminIdFromChat :: "Chatroom \<Rightarrow> string" where
  "adminIdFromChat c =
     (case admin_id c of
        None \<Rightarrow> user_id c
      | Some a \<Rightarrow> if a = [] then user_id c else a)"

text \<open>The \<^verbatim>\<open>admin_selected\<close> branch.\<close>

definition on_admin_selected ::
  "(string \<Rightarrow> int) \<Rightarrow> ConnectClosure \<Rightarrow> string \<Rightarrow> Chatroom list \<Rightarrow> HierarchyMaster list \<Rightarrow>
     ChatSocket \<Rightarrow> ChatSocket" where
  "on_admin_selected getTime c s_admin_id s_chatrooms s_masters s =
     (let s1 = s\<lparr>selectedAdminId := Some s_admin_id, masters := s_masters\<rparr>;
          sortedChatrooms = sortChatrooms getTime s_chatrooms;
          personalChats = filter is_staff_bot sortedChatrooms;
          s2 = (if length personalChats = 0 then
                  (let adminPersonalChats =
                         filter (\<lambda>c. adminIdFromChat c = s_admin_id) (cc_initialPersonalChatrooms c)
                   in s1\<lparr>chatrooms := sortedChatrooms @ adminPersonalChats\<rparr>)
                else s1\<lparr>chatrooms := sortedChatrooms\<rparr>)
      in s2\<lparr>needsSelection := True\<rparr>)"

text \<open>The \<^verbatim>\<open>joined\<close> branch for a role other than user.\<close>

definition on_joined_list ::
  "(string \<Rightarrow> int) \<Rightarrow> bool \<Rightarrow> Hierarchy option \<Rightarrow> Chatroom list \<Rightarrow> ChatSocket \<Rightarrow> ChatSocket" where
  "on_joined_list getTime j_needs_selection j_hierarchy j_chatrooms s =
     (if j_needs_selection then
        (let sortedChatrooms = sortChatrooms getTime j_chatrooms;
             personalChats = filter is_staff_bot sortedChatrooms;
             s1 = s\<lparr>needsSelection := True, chatrooms := sortedChatrooms,
                    initialPersonalChatrooms := personalChats\<rparr>
         in case j_hierarchy of
              None \<Rightarrow> s1
            | Some h \<Rightarrow> s1\<lparr>hierarchy := Some h\<rparr>)
      else s)"

text \<open>
  \<^verbatim>\<open>ws.onmessage\<close>. The frame is given as parsed; \<open>None\<close> is a frame that
  \<^verbatim>\<open>JSON.parse\<close> rejects, which the handler's \<^verbatim>\<open>catch\<close> logs and drops. Frames of
  a type without a branch (pong, error) change nothing.
\<close>

definition onmessage ::
  "(string \<Rightarrow> int) \<Rightarrow> ConnectClosure \<Rightarrow> ServerEvent option \<Rightarrow> ChatSocket \<Rightarrow> ChatSocket" where
  "onmessage getTime c parsed s =
     (case parsed of
        None \<Rightarrow> s
      | Some (ServerJoinedUser j_chat_id) \<Rightarrow> s\<lparr>chatId := Some j_chat_id, needsSelection := False\<rparr>
      | Some (ServerJoinedAdminList j_needs_selection j_hierarchy j_chatrooms) \<Rightarrow>
          on_joined_list getTime j_needs_selection j_hierarchy j_chatrooms s
      | Some (ServerSelected s_chat_id) \<Rightarrow> s\<lparr>chatId := Some s_chat_id, needsSelection := False\<rparr>
      | Some (ServerAdminSelected s_admin_id s_chatrooms s_masters) \<Rightarrow>
          on_admin_selected getTime c s_admin_id s_chatrooms s_masters s
      | Some (ServerMasterSelected s_master_id s_chatrooms) \<Rightarrow>
          s\<lparr>selectedMasterId := Some s_master_id,
            chatrooms := sortChatrooms getTime s_chatrooms,
            needsSelection := True\<rparr>
      | Some ServerPong \<Rightarrow> s
      | Some (ServerMessageEvent m) \<Rightarrow> s\<lparr>messages := appendMessage m (messages s)\<rparr>
      | Some (ServerError e) \<Rightarrow> s
      | Some (ServerCall ev) \<Rightarrow> s\<lparr>callEvent := Some ev\<rparr>)"

subsection \<open>Intents\<close>

text \<open>\<^verbatim>\<open>send\<close> on the hook's state: the exception, if any, and the state afterwards.\<close>

definition send_frame :: "ClientEvent \<Rightarrow> ChatSocket \<Rightarrow> exn option \<times> ChatSocket" where
  "send_frame payload s = (case send payload (wsRef s) of (e, w) \<Rightarrow> (e, s\<lparr>wsRef := w\<rparr>))"

definition sendText :: "string \<Rightarrow> ChatSocket \<Rightarrow> exn option \<times> ChatSocket" where
  "sendText txt s = send_frame (ClientSendText txt) s"

definition selectRoom :: "string \<Rightarrow> ChatSocket \<Rightarrow> exn option \<times> ChatSocket" where
  "selectRoom rid s = send_frame (ClientSelectRoom rid) s"

definition selectAdmin :: "string \<Rightarrow> ChatSocket \<Rightarrow> exn option \<times> ChatSocket" where
  "selectAdmin adminId s =
     (case send_frame (ClientSelectAdmin adminId) s of
        (Some e, s1) \<Rightarrow> (Some e, s1)
      | (None, s1) \<Rightarrow>
          (None, s1\<lparr>selectedAdminId := Some adminId, selectedMasterId := None, masters := []\<rparr>))"

definition selectMaster :: "string \<Rightarrow> string option \<Rightarrow> ChatSocket \<Rightarrow> exn option \<times> ChatSocket" where
  "selectMaster masterId adminId s =
     (case send_frame (ClientSelectMaster masterId adminId) s of
        (Some e, s1) \<Rightarrow> (Some e, s1)
      | (None, s1) \<Rightarrow> (None, s1\<lparr>selectedMasterId := Some masterId\<rparr>))"

definition resetLiveMessages :: "ChatSocket \<Rightarrow> ChatSocket" where
  "resetLiveMessages s = s\<lparr>messages := []\<rparr>"

definition clearCallEvent :: "ChatSocket \<Rightarrow> ChatSocket" where
  "clearCallEvent s = s\<lparr>callEvent := None\<rparr>"

definition resetHierarchy :: "ChatSocket \<Rightarrow> ChatSocket" where
  "resetHierarchy s = s\<lparr>selectedAdminId := None, selectedMasterId := None, masters := []\<rparr>"

text \<open>
  Everything that can happen to the hook: the socket's events, the keepalive tick and
  the intents. \<open>run_socket\<close> applies a sequence of them, as the single-threaded event
  queue does. An exception out of an intent ends that intent only.
\<close>

datatype SocketOp =
    Connect
  | OnOpen
  | OnMessage "ServerEvent option"
  | OnClose
  | OnError
  | KeepAliveTick
  | SendText string
  | SelectRoom string
  | SelectAdmin string
  | SelectMaster string "string option"
  | ResetLiveMessages
  | ClearCallEvent
  | ResetHierarchy

fun socket_step :: "(string \<Rightarrow> int) \<Rightarrow> ConnectClosure \<Rightarrow> ChatSocket \<Rightarrow> SocketOp \<Rightarrow> ChatSocket" where
  "socket_step getTime c s Connect = connect c s"
| "socket_step getTime c s OnOpen = onopen s"
| "socket_step getTime c s (OnMessage parsed) = onmessage getTime c parsed s"
| "socket_step getTime c s OnClose = onclose s"
| "socket_step getTime c s OnError = onerror s"
| "socket_step getTime c s KeepAliveTick = snd (keepAlive_tick s)"
| "socket_step getTime c s (SendText txt) = snd (sendText txt s)"
| "socket_step getTime c s (SelectRoom rid) = snd (selectRoom rid s)"
| "socket_step getTime c s (SelectAdmin adminId) = snd (selectAdmin adminId s)"
| "socket_step getTime c s (SelectMaster masterId adminId) = snd (selectMaster masterId adminId s)"
| "socket_step getTime c s ResetLiveMessages = resetLiveMessages s"
| "socket_step getTime c s ClearCallEvent = clearCallEvent s"
| "socket_step getTime c s ResetHierarchy = resetHierarchy s"

definition run_socket ::
  "(string \<Rightarrow> int) \<Rightarrow> ConnectClosure \<Rightarrow> SocketOp list \<Rightarrow> ChatSocket \<Rightarrow> ChatSocket" where
  "run_socket getTime c ops s = foldl (socket_step getTime c) s ops"

section \<open>useWebRTC: the call signaling engine\<close>

datatype CallState = Idle | Ringing | Connecting | Connected | Ended

subsection \<open>The media stack's objects\<close>

record MediaStreamTrack =
  track_id :: nat
  is_audio :: bool
  track_enabled :: bool

type_synonym MediaStream = "MediaStreamTrack list"

text \<open>
  A peer session: its descriptions, the tracks attached with \<^verbatim>\<open>addTrack\<close>, and the
  candidates handed to \<^verbatim>\<open>addIceCandidate\<close>, in the order of the calls. A rejection of
  \<^verbatim>\<open>addIceCandidate\<close> is caught and logged where it is called and changes nothing in the
  hook, so the call itself is what is recorded.
\<close>

record RTCPeerConnection =
  remoteDescription :: "RTCSessionDescriptionInit option"
  localDescription :: "RTCSessionDescriptionInit option"
  senders :: "MediaStreamTrack list"
  addedIceCandidates :: "RTCIceCandidateInit list"

record HTMLAudioElement =
  srcObject :: "MediaStream option"
  muted :: bool

text \<open>What the hook does to the world besides writing to the socket.\<close>

datatype Effect = TrackStop nat | PeerClose | Alert string

text \<open>
  What one handler meets while it awaits the media stack. The outcomes of the
  asynchronous calls: \<open>None\<close> and \<open>False\<close> are a rejected promise. And
  \<open>iceDuringFlush\<close>: the remote candidates that arrive while the loop of
  \<^verbatim>\<open>handleCallOffer\<close> that empties the buffer awaits \<^verbatim>\<open>addIceCandidate\<close>, the n-th list
  during the wait for the n-th buffered candidate. Events that arrive during any other
  wait are outside the model: apart from that loop, a handler runs to its end before the
  next event is taken up.
\<close>

record MediaEnv =
  getUserMedia :: "MediaStream option"
  createOffer :: "RTCSessionDescriptionInit option"
  createAnswer :: "RTCSessionDescriptionInit option"
  setLocalDescription_ok :: bool
  setRemoteDescription_ok :: bool
  iceDuringFlush :: "RTCIceCandidateInit list list"

subsection \<open>State\<close>

text \<open>
  The values a callback of \<^verbatim>\<open>useWebRTC\<close> captured from the render that created it:
  the \<^verbatim>\<open>chatId\<close> prop and the state cells \<^verbatim>\<open>callId\<close> and \<^verbatim>\<open>callState\<close>. A
  \<^verbatim>\<open>setCallId\<close> or \<^verbatim>\<open>setCallState\<close> changes the cell, not the captured value; the
  next render makes new callbacks.
\<close>

record Closure =
  cl_chatId :: "string option"
  cl_callId :: "string option"
  cl_callState :: CallState

text \<open>
  The state cells, the refs, the content of the socket ref behind the \<^verbatim>\<open>send\<close> prop,
  and the log of effects. \<open>endCallRef\<close> holds a function; it is represented by what
  that function captured.
\<close>

record WebRTC =
  callState :: CallState
  isInitiator :: bool
  isRemoteAudioEnabled :: bool
  callId :: "string option"
  showIncomingCall :: bool
  peerConnectionRef :: "RTCPeerConnection option"
  localStreamRef :: "MediaStream option"
  remoteStreamRef :: "MediaStream option"
  localAudioRef :: "HTMLAudioElement option"
  remoteAudioRef :: "HTMLAudioElement option"
  pendingIceRef :: "RTCIceCandidateInit list"
  callIdRef :: "string option"
  callStateRef :: CallState
  isEndingCallRef :: bool
  endCallRef :: "Closure option"
  send_wsRef :: "WebSocket option"
  effects :: "Effect list"

definition initial_WebRTC :: "WebSocket option \<Rightarrow> WebRTC" where
  "initial_WebRTC w =
     \<lparr>callState = Idle, isInitiator = False, isRemoteAudioEnabled = True, callId = None,
      showIncomingCall = False, peerConnectionRef = None, localStreamRef = None,
      remoteStreamRef = None, localAudioRef = None, remoteAudioRef = None,
      pendingIceRef = [], callIdRef = None, callStateRef = Idle, isEndingCallRef = False,
      endCallRef = None, send_wsRef = w, effects = []\<rparr>"

text \<open>The callbacks of a render capture the cells as they are then.\<close>

definition render :: "string option \<Rightarrow> WebRTC \<Rightarrow> Closure" where
  "render chatId_prop s = \<lparr>cl_chatId = chatId_prop, cl_callId = callId s, cl_callState = callState s\<rparr>"

text \<open>The effects run after a render: the refs follow the cells and the new \<^verbatim>\<open>endCall\<close>.\<close>

definition commit :: "string option \<Rightarrow> WebRTC \<Rightarrow> WebRTC" where
  "commit chatId_prop s =
     s\<lparr>callIdRef := callId s, callStateRef := callState s,
       endCallRef := Some (render chatId_prop s)\<rparr>"

text \<open>A string or null in a condition: null and the empty string are falsy.\<close>

definition truthy :: "string option \<Rightarrow> bool" where
  "truthy v = (case v of None \<Rightarrow> False | Some x \<Rightarrow> x \<noteq> [])"

text \<open>The \<^verbatim>\<open>send\<close> prop, which is \<^verbatim>\<open>send\<close> of the chat socket.\<close>

definition send_prop :: "ClientEvent \<Rightarrow> WebRTC \<Rightarrow> exn option \<times> WebRTC" where
  "send_prop payload s = (case send payload (send_wsRef s) of (e, w) \<Rightarrow> (e, s\<lparr>send_wsRef := w\<rparr>))"

subsection \<open>Teardown\<close>

definition stopTracks :: "MediaStream option \<Rightarrow> Effect list" where
  "stopTracks stream = (case stream of None \<Rightarrow> [] | Some tracks \<Rightarrow> map (\<lambda>t. TrackStop (track_id t)) tracks)"

definition clearSrcObject :: "HTMLAudioElement option \<Rightarrow> HTMLAudioElement option" where
  "clearSrcObject el = (case el of None \<Rightarrow> None | Some a \<Rightarrow> Some (a\<lparr>srcObject := None\<rparr>))"

text \<open>\<^verbatim>\<open>endCall\<close> after the guard and the \<^verbatim>\<open>call.end\<close> frame: the statements in order.\<close>

definition teardown :: "WebRTC \<Rightarrow> WebRTC" where
  "teardown s =
     (let s1 = s\<lparr>effects := effects s @ stopTracks (localStreamRef s), localStreamRef := None\<rparr>;
          s2 = s1\<lparr>effects := effects s1 @ stopTracks (remoteStreamRef s1), remoteStreamRef := None\<rparr>;
          s3 = (case peerConnectionRef s2 of
                  None \<Rightarrow> s2
                | Some pc \<Rightarrow> s2\<lparr>effects := effects s2 @ [PeerClose], peerConnectionRef := None\<rparr>);
          s4 = s3\<lparr>localAudioRef := clearSrcObject (localAudioRef s3)\<rparr>;
          s5 = s4\<lparr>remoteAudioRef := clearSrcObject (remoteAudioRef s4)\<rparr>
      in s5\<lparr>pendingIceRef := [], callState := Idle, isInitiator := False, callId := None,
            showIncomingCall := False, isEndingCallRef := False\<rparr>)"

text \<open>
  \<^verbatim>\<open>endCall\<close>. The exception, if \<^verbatim>\<open>send\<close> throws one, leaves the function after the
  flag was set.
\<close>

definition endCall :: "Closure \<Rightarrow> WebRTC \<Rightarrow> exn option \<times> WebRTC" where
  "endCall c s =
     (if isEndingCallRef s then (None, s)
      else
        (let s1 = s\<lparr>isEndingCallRef := True\<rparr>;
             after_send = (case cl_callId c of
                             None \<Rightarrow> (None, s1)
                           | Some i \<Rightarrow>
                               if i = [] then (None, s1) else send_prop (ClientCallEnd i) s1)
         in case after_send of
              (Some e, s2) \<Rightarrow> (Some e, s2)
            | (None, s2) \<Rightarrow> (None, teardown s2)))"

text \<open>\<^verbatim>\<open>if (endCallRef.current) endCallRef.current()\<close>, in the catch blocks and the peer's callback.\<close>

definition call_endCallRef :: "WebRTC \<Rightarrow> exn option \<times> WebRTC" where
  "call_endCallRef s = (case endCallRef s of None \<Rightarrow> (None, s) | Some c \<Rightarrow> endCall c s)"

subsection \<open>The peer session and its callbacks\<close>

definition createPeerConnection :: RTCPeerConnection where
  "createPeerConnection =
     \<lparr>remoteDescription = None, localDescription = None, senders = [], addedIceCandidates = []\<rparr>"

definition update_pc :: "(RTCPeerConnection \<Rightarrow> RTCPeerConnection) \<Rightarrow> WebRTC \<Rightarrow> WebRTC" where
  "update_pc f s = s\<lparr>peerConnectionRef := map_option f (peerConnectionRef s)\<rparr>"

definition addIceCandidate :: "RTCIceCandidateInit \<Rightarrow> RTCPeerConnection \<Rightarrow> RTCPeerConnection" where
  "addIceCandidate k pc = pc\<lparr>addedIceCandidates := addedIceCandidates pc @ [k]\<rparr>"

definition setSrcObject :: "MediaStream \<Rightarrow> HTMLAudioElement option \<Rightarrow> HTMLAudioElement option" where
  "setSrcObject stream el = (case el of None \<Rightarrow> None | Some a \<Rightarrow> Some (a\<lparr>srcObject := Some stream\<rparr>))"

text \<open>\<^verbatim>\<open>pc.onicecandidate\<close>: a local candidate is relayed once the call id is known.\<close>

definition onicecandidate :: "RTCIceCandidateInit option \<Rightarrow> WebRTC \<Rightarrow> exn option \<times> WebRTC" where
  "onicecandidate event_candidate s =
     (case event_candidate of
        None \<Rightarrow> (None, s)
      | Some k \<Rightarrow>
          (case callIdRef s of
             None \<Rightarrow> (None, s)
           | Some i \<Rightarrow> if i = [] then (None, s) else send_prop (ClientCallIce i k) s))"

text \<open>\<^verbatim>\<open>pc.ontrack\<close>, given \<^verbatim>\<open>event.streams\<close>.\<close>

definition ontrack :: "MediaStream list \<Rightarrow> WebRTC \<Rightarrow> WebRTC" where
  "ontrack event_streams s =
     (case event_streams of
        [] \<Rightarrow> s
      | stream # others \<Rightarrow>
          s\<lparr>remoteStreamRef := Some stream, remoteAudioRef := setSrcObject stream (remoteAudioRef s)\<rparr>)"

datatype RTCPeerConnectionState =
  PcNew | PcConnecting | PcConnected | PcDisconnected | PcFailed | PcClosed

text \<open>\<^verbatim>\<open>pc.onconnectionstatechange\<close>, given \<^verbatim>\<open>pc.connectionState\<close>.\<close>

definition onconnectionstatechange :: "RTCPeerConnectionState \<Rightarrow> WebRTC \<Rightarrow> exn option \<times> WebRTC" where
  "onconnectionstatechange connectionState s =
     (if connectionState = PcConnected then (None, s\<lparr>callState := Connected\<rparr>)
      else if connectionState = PcDisconnected \<or> connectionState = PcFailed then
        (if truthy (callIdRef s) \<and> (callStateRef s = Connecting \<or> callStateRef s = Connected)
         then call_endCallRef s
         else (None, s))
      else (None, s))"

subsection \<open>The operations the hook returns\<close>

text \<open>\<^verbatim>\<open>startCall\<close>. The \<^verbatim>\<open>catch\<close> around \<^verbatim>\<open>send\<close> undoes the two state updates.\<close>

definition startCall :: "Closure \<Rightarrow> WebRTC \<Rightarrow> WebRTC" where
  "startCall c s =
     (if \<not> truthy (cl_chatId c) then
        s\<lparr>effects := effects s @ [Alert ''Cannot start call: No chatroom selected'']\<rparr>
      else if cl_callState c \<noteq> Idle then s
      else
        (case send_prop ClientCallStart (s\<lparr>isInitiator := True, callState := Ringing\<rparr>) of
           (None, s1) \<Rightarrow> s1
         | (Some e, s1) \<Rightarrow> s1\<lparr>callState := Idle, isInitiator := False\<rparr>))"

text \<open>\<^verbatim>\<open>handleCallIncoming\<close>.\<close>

definition handleCallIncoming :: "Closure \<Rightarrow> string \<Rightarrow> WebRTC \<Rightarrow> WebRTC" where
  "handleCallIncoming c incomingCallId s =
     (if cl_callState c \<noteq> Idle \<and> cl_callId c \<noteq> Some incomingCallId then s
      else s\<lparr>callId := Some incomingCallId, showIncomingCall := True, callState := Ringing,
             isInitiator := False\<rparr>)"

text \<open>\<^verbatim>\<open>acceptCall\<close>.\<close>

definition acceptCall :: "Closure \<Rightarrow> WebRTC \<Rightarrow> exn option \<times> WebRTC" where
  "acceptCall c s =
     (case cl_callId c of
        None \<Rightarrow> (None, s)
      | Some i \<Rightarrow>
          if i = [] then (None, s)
          else send_prop (ClientCallAccept i) (s\<lparr>showIncomingCall := False, callState := Connecting\<rparr>))"

text \<open>
  \<^verbatim>\<open>handleCallAccepted\<close> (caller): acquire the microphone, create the peer session,
  attach the tracks, create and send the offer. Any rejection lands in the \<^verbatim>\<open>catch\<close>,
  which ends the call.
\<close>

definition handleCallAccepted :: "Closure \<Rightarrow> MediaEnv \<Rightarrow> WebRTC \<Rightarrow> exn option \<times> WebRTC" where
  "handleCallAccepted c env s =
     (case cl_callId c of
        None \<Rightarrow> (None, s)
      | Some i \<Rightarrow>
          if i = [] then (None, s)
          else
            (case getUserMedia env of
               None \<Rightarrow> call_endCallRef s
             | Some stream \<Rightarrow>
                 (let s1 = s\<lparr>localStreamRef := Some stream,
                              localAudioRef := setSrcObject stream (localAudioRef s)\<rparr>;
                      s2 = s1\<lparr>peerConnectionRef := Some createPeerConnection\<rparr>;
                      s3 = update_pc (\<lambda>pc. pc\<lparr>senders := senders pc @ stream\<rparr>) s2
                  in case createOffer env of
                       None \<Rightarrow> call_endCallRef s3
                     | Some offer \<Rightarrow>
                         if \<not> setLocalDescription_ok env then call_endCallRef s3
                         else
                           (case send_prop (ClientCallOffer i offer)
                                   (update_pc (\<lambda>pc. pc\<lparr>localDescription := Some offer\<rparr>) s3) of
                              (Some e, s4) \<Rightarrow> call_endCallRef s4
                            | (None, s4) \<Rightarrow> (None, s4\<lparr>callState := Connecting\<rparr>)))))"

text \<open>The candidates that arrive during the current wait of the loop below.\<close>

definition arrived_now :: "RTCIceCandidateInit list list \<Rightarrow> RTCIceCandidateInit list" where
  "arrived_now arrivals = (case arrivals of [] \<Rightarrow> [] | now # later \<Rightarrow> now)"

text \<open>
  The loop of \<^verbatim>\<open>handleCallOffer\<close> that empties \<^verbatim>\<open>pendingIceRef\<close>: each round shifts
  the first candidate off the buffer and hands it to \<^verbatim>\<open>addIceCandidate\<close>, and yields
  at the \<^verbatim>\<open>await\<close>. A candidate that arrives during that wait is handled by
  \<^verbatim>\<open>handleIceCandidate\<close>, which finds the peer session with its remote description set
  and hands the candidate to \<^verbatim>\<open>addIceCandidate\<close> at once, ahead of what is still in the
  buffer.
\<close>

function flushPendingIce :: "RTCIceCandidateInit list list \<Rightarrow> WebRTC \<Rightarrow> WebRTC" where
  "flushPendingIce arrivals s =
     (case pendingIceRef s of
        [] \<Rightarrow> s
      | k # rest \<Rightarrow>
          flushPendingIce (tl arrivals)
            (update_pc (\<lambda>pc. pc\<lparr>addedIceCandidates := addedIceCandidates pc @ arrived_now arrivals\<rparr>)
               (update_pc (addIceCandidate k) (s\<lparr>pendingIceRef := rest\<rparr>))))"
  by pat_completeness auto
termination
  by (relation "measure (\<lambda>(arrivals, s). length (pendingIceRef s))") (auto simp: update_pc_def)

declare flushPendingIce.simps [simp del]

text \<open>
  The order in which the peer session is handed the candidates by that loop: each
  buffered candidate, followed by those that arrived while it was being added.
\<close>

fun weave :: "RTCIceCandidateInit list \<Rightarrow> RTCIceCandidateInit list list \<Rightarrow> RTCIceCandidateInit list" where
  "weave [] arrivals = []"
| "weave (k # rest) arrivals = k # arrived_now arrivals @ weave rest (tl arrivals)"

text \<open>
  \<^verbatim>\<open>handleCallOffer\<close> (callee): acquire the microphone, create the peer session, attach
  the tracks, set the remote offer, empty the candidate buffer, create and send the answer.
\<close>

definition handleCallOffer ::
  "Closure \<Rightarrow> RTCSessionDescriptionInit \<Rightarrow> MediaEnv \<Rightarrow> WebRTC \<Rightarrow> exn option \<times> WebRTC" where
  "handleCallOffer c offer env s =
     (case cl_callId c of
        None \<Rightarrow> (None, s)
      | Some i \<Rightarrow>
          if i = [] then (None, s)
          else
            (case getUserMedia env of
               None \<Rightarrow> call_endCallRef s
             | Some stream \<Rightarrow>
                 (let s1 = s\<lparr>localStreamRef := Some stream,
                              localAudioRef := setSrcObject stream (localAudioRef s)\<rparr>;
                      s2 = s1\<lparr>peerConnectionRef := Some createPeerConnection\<rparr>;
                      s3 = update_pc (\<lambda>pc. pc\<lparr>senders := senders pc @ stream\<rparr>) s2
                  in if \<not> setRemoteDescription_ok env then call_endCallRef s3
                     else
                       (let s4 = update_pc (\<lambda>pc. pc\<lparr>remoteDescription := Some offer\<rparr>) s3;
                            s5 = flushPendingIce (iceDuringFlush env) s4
                        in case createAnswer env of
                             None \<Rightarrow> call_endCallRef s5
                           | Some answer \<Rightarrow>
                               if \<not> setLocalDescription_ok env then call_endCallRef s5
                               else
                                 (case send_prop (ClientCallAnswer i answer)
                                         (update_pc (\<lambda>pc. pc\<lparr>localDescription := Some answer\<rparr>) s5) of
                                    (Some e, s6) \<Rightarrow> call_endCallRef s6
                                  | (None, s6) \<Rightarrow> (None, s6\<lparr>callState := Connecting\<rparr>))))))"

text \<open>\<^verbatim>\<open>handleCallAnswer\<close> (caller): the answer becomes the remote description.\<close>

definition handleCallAnswer ::
  "RTCSessionDescriptionInit option \<Rightarrow> MediaEnv \<Rightarrow> WebRTC \<Rightarrow> exn option \<times> WebRTC" where
  "handleCallAnswer answer env s =
     (case peerConnectionRef s of
        None \<Rightarrow> (None, s)
      | Some pc \<Rightarrow>
          (case answer of
             None \<Rightarrow> (None, s)
           | Some a \<Rightarrow>
               if \<not> setRemoteDescription_ok env then call_endCallRef s
               else (None, (update_pc (\<lambda>pc. pc\<lparr>remoteDescription := Some a\<rparr>) s)
                             \<lparr>callState := Connecting\<rparr>)))"

text \<open>\<^verbatim>\<open>handleIceCandidate\<close>: buffer without a remote description, apply with one.\<close>

definition handleIceCandidate :: "RTCIceCandidateInit option \<Rightarrow> WebRTC \<Rightarrow> WebRTC" where
  "handleIceCandidate cand s =
     (case cand of
        None \<Rightarrow> s
      | Some k \<Rightarrow>
          (case peerConnectionRef s of
             None \<Rightarrow> s\<lparr>pendingIceRef := pendingIceRef s @ [k]\<rparr>
           | Some pc \<Rightarrow>
               (case remoteDescription pc of
                  None \<Rightarrow> s\<lparr>pendingIceRef := pendingIceRef s @ [k]\<rparr>
                | Some d \<Rightarrow> update_pc (addIceCandidate k) s)))"

text \<open>\<^verbatim>\<open>handleCallRinging\<close>: both updates are functional, so they read the cells.\<close>

definition handleCallRinging :: "string \<Rightarrow> WebRTC \<Rightarrow> WebRTC" where
  "handleCallRinging incomingCallId s =
     (let s1 = s\<lparr>callId := Some incomingCallId\<rparr>
      in if callState s1 = Idle
         then s1\<lparr>isInitiator := False, showIncomingCall := True, callState := Ringing\<rparr>
         else s1)"

definition toggleMute :: "WebRTC \<Rightarrow> WebRTC" where
  "toggleMute s =
     (case localStreamRef s of
        None \<Rightarrow> s
      | Some tracks \<Rightarrow>
          s\<lparr>localStreamRef :=
              Some (map (\<lambda>t. if is_audio t then t\<lparr>track_enabled := \<not> track_enabled t\<rparr> else t) tracks)\<rparr>)"

definition toggleRemoteAudio :: "WebRTC \<Rightarrow> WebRTC" where
  "toggleRemoteAudio s =
     (let prev = isRemoteAudioEnabled s
      in s\<lparr>remoteAudioRef :=
              (case remoteAudioRef s of None \<Rightarrow> None | Some a \<Rightarrow> Some (a\<lparr>muted := \<not> prev\<rparr>)),
            isRemoteAudioEnabled := \<not> prev\<rparr>)"

text \<open>
  The members of the hook's return value that are functions, with their arguments (and
  the media stack's outcome for those that await it).
\<close>

datatype Operation =
    StartCall
  | AcceptCall
  | EndCall
  | HandleCallIncoming string
  | HandleCallRinging string
  | HandleCallAccepted MediaEnv
  | HandleCallOffer RTCSessionDescriptionInit MediaEnv
  | HandleCallAnswer "RTCSessionDescriptionInit option" MediaEnv
  | HandleIceCandidate "RTCIceCandidateInit option"
  | ToggleMute
  | ToggleRemoteAudio

fun invoke :: "Closure \<Rightarrow> Operation \<Rightarrow> WebRTC \<Rightarrow> exn option \<times> WebRTC" where
  "invoke c StartCall s = (None, startCall c s)"
| "invoke c AcceptCall s = acceptCall c s"
| "invoke c EndCall s = endCall c s"
| "invoke c (HandleCallIncoming i) s = (None, handleCallIncoming c i s)"
| "invoke c (HandleCallRinging i) s = (None, handleCallRinging i s)"
| "invoke c (HandleCallAccepted env) s = handleCallAccepted c env s"
| "invoke c (HandleCallOffer offer env) s = handleCallOffer c offer env s"
| "invoke c (HandleCallAnswer answer env) s = handleCallAnswer answer env s"
| "invoke c (HandleIceCandidate cand) s = (None, handleIceCandidate cand s)"
| "invoke c ToggleMute s = (None, toggleMute s)"
| "invoke c ToggleRemoteAudio s = (None, toggleRemoteAudio s)"

text \<open>
  One turn of the page: an operation is invoked through the callbacks of the current
  render, then the component renders again and its effects run. \<open>run_calls\<close> takes a
  sequence of turns.
\<close>

definition turn :: "string option \<Rightarrow> WebRTC \<Rightarrow> Operation \<Rightarrow> WebRTC" where
  "turn chatId_prop s op = commit chatId_prop (snd (invoke (render chatId_prop s) op s))"

definition run_calls :: "string option \<Rightarrow> Operation list \<Rightarrow> WebRTC \<Rightarrow> WebRTC" where
  "run_calls chatId_prop ops s = foldl (turn chatId_prop) s ops"

text \<open>The frames on the wire behind the \<^verbatim>\<open>send\<close> prop.\<close>

definition sent :: "WebRTC \<Rightarrow> json_text list" where
  "sent s = (case send_wsRef s of None \<Rightarrow> [] | Some w \<Rightarrow> wire w)"

text \<open>
  The cleanup of the effect with the \<^verbatim>\<open>send\<close> dependency, run when the component goes
  away: it reads the refs, sends \<^verbatim>\<open>call.end\<close> for a call id still tracked, and stops
  the tracks and the peer session without resetting any ref.
\<close>

definition unmount :: "WebRTC \<Rightarrow> exn option \<times> WebRTC" where
  "unmount s =
     (if truthy (callIdRef s) \<or> callStateRef s \<noteq> Idle then
        (case (case callIdRef s of
                 None \<Rightarrow> (None, s)
               | Some i \<Rightarrow> if i = [] then (None, s) else send_prop (ClientCallEnd i) s) of
           (Some e, s1) \<Rightarrow> (Some e, s1)
         | (None, s1) \<Rightarrow>
             (None, s1\<lparr>effects := effects s1 @ stopTracks (localStreamRef s1)
                               @ stopTracks (remoteStreamRef s1)
                               @ (case peerConnectionRef s1 of None \<Rightarrow> [] | Some pc \<Rightarrow> [PeerClose])\<rparr>))
      else (None, s))"

section \<open>Predicates and sample values used in the statements\<close>

text \<open>
  A message frame of one of the three declared variants: a text, or a file message of
  kind file or audio.
\<close>

definition recognised_kind :: "ServerMessage \<Rightarrow> bool" where
  "recognised_kind m =
     (if msg_is_file m = Some True
      then msg_kind m = Some ''file'' \<or> msg_kind m = Some ''audio''
      else True)"

definition sample_getTime :: "string \<Rightarrow> int" where
  "sample_getTime d = int (length d)"

definition sample_text_m1 :: ServerMessage where
  "sample_text_m1 =
     \<lparr>msg_from = ''user'', msg_is_file = None, msg_kind = None, msg_message = Some ''hello'',
      msg_meta = None, msg_file_url = None, msg_file_name = None, msg_file_type = None,
      msg_audio_url = None, msg_audio_name = None, msg_audio_type = None,
      msg_message_id = ''m1'', msg_chat_id = ''chat1'',
      msg_created_time = ''2024-01-01T00:00:00Z''\<rparr>"

definition sample_closure :: ConnectClosure where
  "sample_closure = \<lparr>cc_token = ''token'', cc_initialPersonalChatrooms = []\<rparr>"

definition personal_room_A1 :: Chatroom where
  "personal_room_A1 =
     \<lparr>room_role = ''admin'', chat_id = ''p1'', user_id = ''A1'', admin_id = None,
      is_user_active = False, is_superadmin_active = True,
      updated_time = ''2024-01-01T00:00:00Z'', room_type = Some ''staff_bot'',
      room_user = None\<rparr>"


definition scoped_normal_room :: Chatroom where
  "scoped_normal_room =
     \<lparr>room_role = ''user'', chat_id = ''n1'', user_id = ''U3'', admin_id = None,
      is_user_active = True, is_superadmin_active = False,
      updated_time = ''2024-03-01T00:00:00Z'', room_type = None,
      room_user = None\<rparr>"


definition open_socket :: WebSocket where
  "open_socket = \<lparr>readyState = OPEN, wire = []\<rparr>"

text \<open>The callee after \<^verbatim>\<open>call.incoming\<close> for call c1, on an open socket.\<close>

definition callee_ringing_c1 :: WebRTC where
  "callee_ringing_c1 =
     run_calls (Some ''chat1'') [HandleCallIncoming ''c1''] (initial_WebRTC (Some open_socket))"

definition socket_is_open :: "WebSocket option \<Rightarrow> bool" where
  "socket_is_open r = (case r of None \<Rightarrow> False | Some w \<Rightarrow> readyState w = OPEN)"

definition frames_on :: "WebSocket option \<Rightarrow> json_text list" where
  "frames_on r = (case r of None \<Rightarrow> [] | Some w \<Rightarrow> wire w)"

definition is_call_reject :: "json_text \<Rightarrow> bool" where
  "is_call_reject f = (case f of JSON_stringify (ClientCallReject i) \<Rightarrow> True | _ \<Rightarrow> False)"

definition microphone :: MediaStream where
  "microphone = [\<lparr>track_id = 1, is_audio = True, track_enabled = True\<rparr>]"

definition sample_offer :: RTCSessionDescriptionInit where
  "sample_offer = \<lparr>sdp_type = ''offer'', sdp = ''v=0 offer''\<rparr>"

definition sample_answer :: RTCSessionDescriptionInit where
  "sample_answer = \<lparr>sdp_type = ''answer'', sdp = ''v=0 answer''\<rparr>"

text \<open>
  A media stack in which every asynchronous call succeeds, with no candidate arriving
  while the buffer is emptied.
\<close>

definition media_ok :: MediaEnv where
  "media_ok =
     \<lparr>getUserMedia = Some microphone, createOffer = Some sample_offer,
      createAnswer = Some sample_answer, setLocalDescription_ok = True,
      setRemoteDescription_ok = True, iceDuringFlush = []\<rparr>"

definition candidate_k1 :: RTCIceCandidateInit where
  "candidate_k1 = \<lparr>candidate = ''candidate:1 1 udp 1 10.0.0.1 5000 typ host'', sdpMid = Some ''0'',
                    sdpMLineIndex = Some 0\<rparr>"

definition candidate_k2 :: RTCIceCandidateInit where
  "candidate_k2 = \<lparr>candidate = ''candidate:2 1 udp 1 10.0.0.2 5000 typ host'', sdpMid = Some ''0'',
                    sdpMLineIndex = Some 0\<rparr>"

text \<open>
  The callee after accepting call c1 and answering its offer, when the relay repeats the
  incoming signal for c1: the tracked id passes the guard of \<^verbatim>\<open>handleCallIncoming\<close>, so
  the callee is Ringing again, with the microphone and the peer session held.
\<close>

definition callee_ringing_with_media :: WebRTC where
  "callee_ringing_with_media =
     run_calls (Some ''chat1'')
       [HandleCallIncoming ''c1'', AcceptCall, HandleCallOffer sample_offer media_ok,
        HandleCallIncoming ''c1'']
       (initial_WebRTC (Some open_socket))"

text \<open>
  What \<^verbatim>\<open>connect\<close> captures when it is created by a render in state \<open>s\<close>.
  \<^verbatim>\<open>connect\<close> is created by the first render and again only when the token changes.
\<close>

definition connect_closure :: "string \<Rightarrow> ChatSocket \<Rightarrow> ConnectClosure" where
  "connect_closure token s =
     \<lparr>cc_token = token, cc_initialPersonalChatrooms = initialPersonalChatrooms s\<rparr>"

text \<open>
  The caller's side of a call up to the answer, with candidate k1 arriving before the
  answer and candidate k2 after it.
\<close>

definition caller_trace :: "Operation list" where
  "caller_trace =
     [StartCall, HandleCallRinging ''c1'', HandleCallAccepted media_ok,
      HandleIceCandidate (Some candidate_k1),
      HandleCallAnswer (Some sample_answer) media_ok,
      HandleIceCandidate (Some candidate_k2)]"

definition caller_connecting :: WebRTC where
  "caller_connecting = run_calls (Some ''chat1'') caller_trace (initial_WebRTC (Some open_socket))"

section \<open>Properties of the transport session\<close>

subsection \<open>Sending\<close>

lemma send_result:
  "send payload r =
     (None, case r of
              None \<Rightarrow> None
            | Some w \<Rightarrow>
                if readyState w = OPEN then Some (w\<lparr>wire := wire w @ [JSON_stringify payload]\<rparr>)
                else Some w)"
  by (simp add: send_def WebSocket_send_def split: option.splits)

text \<open>
  C9. A frame passed to \<^verbatim>\<open>send\<close> while there is no socket, or the socket is not open,
  is dropped: the socket (its wire included) is returned as it was and the whole state of
  the hook is left as it was, so nothing is written and nothing is kept for later, and no
  exception reaches the caller. On an open socket the serialised frame is appended to the
  wire once, and again no exception is raised.
\<close>

theorem send_only_when_open:
  "(r = None \<longrightarrow> send payload r = (None, None)) \<and>
   (\<forall>s. r = Some s \<and> readyState s \<noteq> OPEN \<longrightarrow> send payload r = (None, Some s)) \<and>
   (\<forall>s. r = Some s \<and> readyState s = OPEN \<longrightarrow>
        send payload r = (None, Some (s\<lparr>wire := wire s @ [JSON_stringify payload]\<rparr>))) \<and>
   (\<not> socket_is_open (wsRef hook) \<longrightarrow> send_frame payload hook = (None, hook))"
  by (simp add: send_def WebSocket_send_def send_frame_def socket_is_open_def split: option.splits)

theorem send_only_when_open_witness:
  "send (ClientSendText ''hi'') (Some \<lparr>readyState = CLOSED, wire = []\<rparr>)
     = (None, Some \<lparr>readyState = CLOSED, wire = []\<rparr>) \<and>
   send (ClientSendText ''hi'') (Some \<lparr>readyState = OPEN, wire = []\<rparr>)
     = (None, Some \<lparr>readyState = OPEN, wire = [JSON_stringify (ClientSendText ''hi'')]\<rparr>) \<and>
   send (ClientSendText ''hi'') None = (None, None) \<and>
   send_frame (ClientSendText ''hi'') initial_ChatSocket = (None, initial_ChatSocket)"
  using send_only_when_open [of "Some \<lparr>readyState = CLOSED, wire = []\<rparr>" "ClientSendText ''hi''"
          initial_ChatSocket]
        send_only_when_open [of "Some \<lparr>readyState = OPEN, wire = []\<rparr>" "ClientSendText ''hi''"
          initial_ChatSocket]
        send_only_when_open [of None "ClientSendText ''hi''" initial_ChatSocket]
  by (simp add: initial_ChatSocket_def socket_is_open_def)

subsection \<open>Reconnecting\<close>

lemma onclose_at_ceiling:
  "5 \<le> retryRef s \<Longrightarrow>
   timeouts ((onclose ^^ n) s) = timeouts s \<and> retryRef ((onclose ^^ n) s) = retryRef s"
  by (induction n) (auto simp: onclose_def clearKeepAlive_def Let_def split: option.splits)

text \<open>
  C3. On a close with the retry counter below 5, exactly one reconnect is scheduled,
  after min(1000 * 2^retryCount, 15000) ms, and the counter goes up by one; with the
  counter at 3 the delay is 8000 ms. With the counter at 5 (or beyond) a close schedules
  nothing and leaves the counter, however many closes follow. An open resets the
  counter to 0 and schedules nothing.
\<close>

theorem reconnect_backoff:
  "(retryRef s < 5 \<longrightarrow>
      timeouts (onclose s) = timeouts s @ [min (1000 * 2 ^ retryRef s) 15000] \<and>
      retryRef (onclose s) = retryRef s + 1) \<and>
   (retryRef s = 3 \<longrightarrow> timeouts (onclose s) = timeouts s @ [8000]) \<and>
   (5 \<le> retryRef s \<longrightarrow>
      timeouts ((onclose ^^ n) s) = timeouts s \<and> retryRef ((onclose ^^ n) s) = retryRef s) \<and>
   retryRef (onopen s) = 0 \<and> timeouts (onopen s) = timeouts s"
  using onclose_at_ceiling [of s n]
  by (auto simp: onclose_def onopen_def clearKeepAlive_def Let_def split: option.splits)

theorem reconnect_backoff_witness:
  "timeouts (onclose (initial_ChatSocket\<lparr>retryRef := 3\<rparr>)) = [8000] \<and>
   retryRef (onclose (initial_ChatSocket\<lparr>retryRef := 3\<rparr>)) = 4 \<and>
   timeouts (onclose (onclose (initial_ChatSocket\<lparr>retryRef := 5\<rparr>))) = [] \<and>
   retryRef (onclose (onclose (initial_ChatSocket\<lparr>retryRef := 5\<rparr>))) = 5 \<and>
   retryRef (onopen (initial_ChatSocket\<lparr>retryRef := 5\<rparr>)) = 0"
  using reconnect_backoff [of "initial_ChatSocket\<lparr>retryRef := 3\<rparr>" 0]
        reconnect_backoff [of "initial_ChatSocket\<lparr>retryRef := 5\<rparr>" "Suc (Suc 0)"]
  by (simp add: initial_ChatSocket_def)

subsection \<open>De-duplication of inbound messages\<close>

lemma list_ex_ids:
  "list_ex (\<lambda>msg. message_id msg = Some i) prev \<longleftrightarrow> Some i \<in> message_id ` set prev"
  by (force simp: list_ex_iff image_iff)

lemma appendMessage_seen:
  "Some (msg_message_id m) \<in> message_id ` set prev \<Longrightarrow> appendMessage m prev = prev"
  by (simp add: appendMessage_def list_ex_ids)

lemma appendMessage_distinct:
  "distinct (map message_id prev) \<Longrightarrow> distinct (map message_id (appendMessage m prev))"
  by (auto simp: appendMessage_def list_ex_ids Let_def)

lemma appendMessage_recognised:
  "recognised_kind m \<Longrightarrow> Some (msg_message_id m) \<in> message_id ` set (appendMessage m prev)"
  by (auto simp: appendMessage_def list_ex_ids Let_def recognised_kind_def image_iff split: if_splits)

lemma appendMessage_twice: "appendMessage m (appendMessage m prev) = appendMessage m prev"
  by (auto simp: appendMessage_def list_ex_ids Let_def)

text \<open>Only a message frame and \<^verbatim>\<open>resetLiveMessages\<close> touch the collection.\<close>

lemma messages_socket_step:
  "messages (socket_step getTime c s op) =
     (case op of
        OnMessage (Some (ServerMessageEvent m)) \<Rightarrow> appendMessage m (messages s)
      | ResetLiveMessages \<Rightarrow> []
      | _ \<Rightarrow> messages s)"
  by (cases op)
     (auto simp: connect_def onopen_def onmessage_def onclose_def onerror_def keepAlive_tick_def
        sendText_def selectRoom_def selectAdmin_def selectMaster_def send_frame_def
        resetLiveMessages_def clearCallEvent_def resetHierarchy_def clearKeepAlive_def
        on_admin_selected_def on_joined_list_def Let_def
        split: option.splits ServerEvent.splits prod.splits)

lemma socket_step_distinct:
  "distinct (map message_id (messages s)) \<Longrightarrow>
   distinct (map message_id (messages (socket_step getTime c s op)))"
  by (auto simp: messages_socket_step appendMessage_distinct
        split: SocketOp.splits option.splits ServerEvent.splits)

lemma run_socket_distinct:
  "distinct (map message_id (messages s)) \<Longrightarrow>
   distinct (map message_id (messages (run_socket getTime c ops s)))"
  unfolding run_socket_def
  by (induction ops arbitrary: s) (simp_all add: socket_step_distinct)

lemma distinct_count_one:
  "distinct (map f xs) \<Longrightarrow> v \<in> f ` set xs \<Longrightarrow> length (filter (\<lambda>x. f x = v) xs) = 1"
proof (induction xs)
  case Nil
  then show ?case by simp
next
  case (Cons x xs)
  show ?case
  proof (cases "f x = v")
    case True
    with Cons.prems have "filter (\<lambda>y. f y = v) xs = []"
      by (force simp: filter_empty_conv image_iff)
    with True show ?thesis by simp
  next
    case False
    with Cons show ?thesis by auto
  qed
qed

lemma received_twice:
  "messages (run_socket getTime c
       (ops @ [OnMessage (Some (ServerMessageEvent m)), OnMessage (Some (ServerMessageEvent m))]) s)
     = appendMessage m (messages (run_socket getTime c ops s))"
  by (simp add: run_socket_def onmessage_def appendMessage_twice)

text \<open>
  C4. Whatever sequence of socket events and intents the hook goes through from its
  initial state, no two entries of the message collection carry the same
  \<^verbatim>\<open>message_id\<close>. A message frame whose \<^verbatim>\<open>message_id\<close> is already in the collection
  leaves the collection as it is, so handling the same frame a second time changes
  nothing; and after any history, a text, file or audio message received twice is in
  the collection exactly once.
\<close>

theorem message_ids_unique:
  "distinct (map message_id (messages (run_socket getTime c ops initial_ChatSocket))) \<and>
   (Some (msg_message_id m) \<in> message_id ` set (messages s) \<longrightarrow>
      messages (onmessage getTime c (Some (ServerMessageEvent m)) s) = messages s) \<and>
   messages (onmessage getTime c (Some (ServerMessageEvent m))
              (onmessage getTime c (Some (ServerMessageEvent m)) s))
     = messages (onmessage getTime c (Some (ServerMessageEvent m)) s) \<and>
   (recognised_kind m \<longrightarrow>
      length (filter (\<lambda>item. message_id item = Some (msg_message_id m))
                (messages (run_socket getTime c
                   (ops @ [OnMessage (Some (ServerMessageEvent m)),
                           OnMessage (Some (ServerMessageEvent m))]) initial_ChatSocket))) = 1)"
proof -
  let ?s = "run_socket getTime c ops initial_ChatSocket"
  have d: "distinct (map message_id (messages ?s))"
    by (rule run_socket_distinct) (simp add: initial_ChatSocket_def)
  have seen: "Some (msg_message_id m) \<in> message_id ` set (messages s) \<longrightarrow>
      messages (onmessage getTime c (Some (ServerMessageEvent m)) s) = messages s"
    by (simp add: onmessage_def appendMessage_seen)
  have twice: "messages (onmessage getTime c (Some (ServerMessageEvent m))
              (onmessage getTime c (Some (ServerMessageEvent m)) s))
     = messages (onmessage getTime c (Some (ServerMessageEvent m)) s)"
    by (simp add: onmessage_def appendMessage_twice)
  have one: "recognised_kind m \<longrightarrow>
      length (filter (\<lambda>item. message_id item = Some (msg_message_id m))
                (messages (run_socket getTime c
                   (ops @ [OnMessage (Some (ServerMessageEvent m)),
                           OnMessage (Some (ServerMessageEvent m))]) initial_ChatSocket))) = 1"
  proof
    assume r: "recognised_kind m"
    have "distinct (map message_id (appendMessage m (messages ?s)))"
      using d by (rule appendMessage_distinct)
    moreover have "Some (msg_message_id m) \<in> message_id ` set (appendMessage m (messages ?s))"
      using r by (rule appendMessage_recognised)
    ultimately show "length (filter (\<lambda>item. message_id item = Some (msg_message_id m))
                (messages (run_socket getTime c
                   (ops @ [OnMessage (Some (ServerMessageEvent m)),
                           OnMessage (Some (ServerMessageEvent m))]) initial_ChatSocket))) = 1"
      unfolding received_twice by (rule distinct_count_one)
  qed
  from d seen twice one show ?thesis by blast
qed

theorem message_ids_unique_witness:
  "messages (run_socket sample_getTime sample_closure
      [OnMessage (Some (ServerMessageEvent sample_text_m1)),
       OnMessage (Some (ServerMessageEvent sample_text_m1))] initial_ChatSocket)
     = [TextItem ''user'' (Some ''hello'') ''2024-01-01T00:00:00Z'' (Some ''m1'') None] \<and>
   recognised_kind sample_text_m1"
  using message_ids_unique [of sample_getTime sample_closure "[]" sample_text_m1
          "onmessage sample_getTime sample_closure (Some (ServerMessageEvent sample_text_m1))
             initial_ChatSocket"]
  by (simp add: run_socket_def onmessage_def appendMessage_def sample_text_m1_def
        initial_ChatSocket_def recognised_kind_def)

subsection \<open>The conversation list after an admin selection\<close>





text \<open>
  The handlers of the socket read \<^verbatim>\<open>initialPersonalChatrooms\<close> as \<^verbatim>\<open>connect\<close>
  captured it. With the \<^verbatim>\<open>connect\<close> of the first render, which an ordinary session
  keeps throughout, the personal conversation of admin A1 that the joined frame
  delivered is in the state cell but is not merged on the confirmation for A1, although
  the scoped list holds no personal room.
\<close>

lemma admin_selected_first_render_closure:
  "chatrooms (run_socket sample_getTime (connect_closure ''token'' initial_ChatSocket)
      [Connect, OnOpen,
       OnMessage (Some (ServerJoinedAdminList True None [personal_room_A1])),
       OnMessage (Some (ServerAdminSelected ''A1'' [scoped_normal_room] []))]
      initial_ChatSocket) = [scoped_normal_room] \<and>
   initialPersonalChatrooms (run_socket sample_getTime (connect_closure ''token'' initial_ChatSocket)
      [Connect, OnOpen,
       OnMessage (Some (ServerJoinedAdminList True None [personal_room_A1])),
       OnMessage (Some (ServerAdminSelected ''A1'' [scoped_normal_room] []))]
      initial_ChatSocket) = [personal_room_A1]"
  by (simp add: run_socket_def connect_closure_def connect_def onopen_def onmessage_def
        on_joined_list_def on_admin_selected_def sortChatrooms_def is_staff_bot_def
        personal_room_A1_def scoped_normal_room_def initial_ChatSocket_def Let_def)



section \<open>Properties of the call signaling engine\<close>

lemma send_prop_result:
  "send_prop payload s = (None, s\<lparr>send_wsRef := snd (send payload (send_wsRef s))\<rparr>)"
  by (simp add: send_prop_def send_result)

lemma callee_ringing_c1_eq:
  "callee_ringing_c1 = (initial_WebRTC (Some open_socket))
     \<lparr>callId := Some ''c1'', showIncomingCall := True, callState := Ringing,
       callIdRef := Some ''c1'', callStateRef := Ringing,
       endCallRef := Some \<lparr>cl_chatId = Some ''chat1'', cl_callId = Some ''c1'',
                            cl_callState = Ringing\<rparr>\<rparr>"
  by (simp add: callee_ringing_c1_def run_calls_def turn_def render_def commit_def
      handleCallIncoming_def initial_WebRTC_def)

subsection \<open>One call at a time\<close>

lemma startCall_not_idle:
  "cl_callState c \<noteq> Idle \<Longrightarrow>
   startCall c s =
     (if truthy (cl_chatId c) then s
      else s\<lparr>effects := effects s @ [Alert ''Cannot start call: No chatroom selected'']\<rparr>)"
  by (simp add: startCall_def)

lemma handleCallIncoming_other:
  "cl_callState c \<noteq> Idle \<Longrightarrow> cl_callId c \<noteq> Some i \<Longrightarrow> handleCallIncoming c i s = s"
  by (simp add: handleCallIncoming_def)

text \<open>
  C5. The engine holds one call id and one call state. \<^verbatim>\<open>startCall\<close>, invoked while
  the call state is not Idle, changes no state cell and no ref and sends no frame (without
  a selected chatroom it raises the alert that says so, and nothing else). An incoming-call
  signal that arrives while a call is active (the state is not Idle) and carries a call
  id other than the tracked one leaves the engine as it is.
\<close>

theorem one_call_at_a_time:
  "(callState s \<noteq> Idle \<longrightarrow>
      startCall (render chatId_prop s) s =
        (if truthy chatId_prop then s
         else s\<lparr>effects := effects s @ [Alert ''Cannot start call: No chatroom selected'']\<rparr>) \<and>
      sent (startCall (render chatId_prop s) s) = sent s) \<and>
   (callState s \<noteq> Idle \<and> callId s \<noteq> Some incomingCallId \<longrightarrow>
      handleCallIncoming (render chatId_prop s) incomingCallId s = s)"
  by (simp add: startCall_not_idle handleCallIncoming_other render_def sent_def)

theorem one_call_at_a_time_witness:
  "callState callee_ringing_c1 = Ringing \<and> callId callee_ringing_c1 = Some ''c1'' \<and>
   startCall (render (Some ''chat1'') callee_ringing_c1) callee_ringing_c1 = callee_ringing_c1 \<and>
   handleCallIncoming (render (Some ''chat1'') callee_ringing_c1) ''c2'' callee_ringing_c1
     = callee_ringing_c1"
  using one_call_at_a_time [of callee_ringing_c1 "Some ''chat1''" "''c2''"]
  by (simp add: callee_ringing_c1_eq truthy_def)

subsection \<open>The ringing signal\<close>

text \<open>
  C10. A ringing signal always stores the call id it carries, whatever id was stored
  before. Received in the Idle state it makes the call an incoming one: the state
  becomes Ringing, the initiator flag is cleared and the accept affordance is shown,
  and nothing else changes. Received in any other state it changes the call id alone.
\<close>

theorem handleCallRinging_records_id:
  "callId (handleCallRinging incomingCallId s) = Some incomingCallId \<and>
   (callState s = Idle \<longrightarrow>
      handleCallRinging incomingCallId s =
        s\<lparr>callId := Some incomingCallId, isInitiator := False, showIncomingCall := True,
          callState := Ringing\<rparr>) \<and>
   (callState s \<noteq> Idle \<longrightarrow> handleCallRinging incomingCallId s = s\<lparr>callId := Some incomingCallId\<rparr>)"
  by (simp add: handleCallRinging_def Let_def)

theorem handleCallRinging_records_id_witness:
  "callState (handleCallRinging ''c1'' (initial_WebRTC None)) = Ringing \<and>
   isInitiator (handleCallRinging ''c1'' (initial_WebRTC None)) = False \<and>
   showIncomingCall (handleCallRinging ''c1'' (initial_WebRTC None)) = True \<and>
   callId (handleCallRinging ''c2'' callee_ringing_c1) = Some ''c2'' \<and>
   callState (handleCallRinging ''c2'' callee_ringing_c1) = Ringing"
  using handleCallRinging_records_id [of "''c1''" "initial_WebRTC None"]
        handleCallRinging_records_id [of "''c2''" callee_ringing_c1]
  by (simp add: initial_WebRTC_def callee_ringing_c1_eq)

subsection \<open>Accepting\<close>

text \<open>
  C6, as stated, fails. The callee accepts call c1 and is Connecting; \<^verbatim>\<open>acceptCall\<close>
  invoked again in that state is not a no-op: a second accept frame goes out.
\<close>

theorem acceptCall_any_state_counterexample:
  "sent (run_calls (Some ''chat1'') [HandleCallIncoming ''c1'', AcceptCall]
           (initial_WebRTC (Some open_socket)))
     = [JSON_stringify (ClientCallAccept ''c1'')] \<and>
   callState (run_calls (Some ''chat1'') [HandleCallIncoming ''c1'', AcceptCall]
           (initial_WebRTC (Some open_socket))) = Connecting \<and>
   sent (run_calls (Some ''chat1'') [HandleCallIncoming ''c1'', AcceptCall, AcceptCall]
           (initial_WebRTC (Some open_socket)))
     = [JSON_stringify (ClientCallAccept ''c1''), JSON_stringify (ClientCallAccept ''c1'')]"
  by (simp add: run_calls_def turn_def render_def commit_def handleCallIncoming_def
        acceptCall_def send_prop_result send_result sent_def initial_WebRTC_def open_socket_def)

text \<open>
  C6, amended. \<^verbatim>\<open>acceptCall\<close> is effective exactly when a (non-empty) call id is known,
  whatever the call state: it then hands an accept frame carrying the call id to
  \<^verbatim>\<open>send\<close>, sets the state to Connecting and clears the accept affordance, and changes
  nothing else. Without a call id it sends nothing and changes no state.
\<close>

theorem acceptCall_needs_call_id:
  "(\<forall>i. callId s = Some i \<and> i \<noteq> [] \<longrightarrow>
      acceptCall (render chatId_prop s) s =
        (None, s\<lparr>showIncomingCall := False, callState := Connecting,
                 send_wsRef := snd (send (ClientCallAccept i) (send_wsRef s))\<rparr>)) \<and>
   (\<not> truthy (callId s) \<longrightarrow> acceptCall (render chatId_prop s) s = (None, s))"
  by (auto simp: acceptCall_def render_def send_prop_result truthy_def split: option.splits)

theorem acceptCall_needs_call_id_witness:
  "acceptCall (render (Some ''chat1'') callee_ringing_c1) callee_ringing_c1 =
     (None, callee_ringing_c1\<lparr>showIncomingCall := False, callState := Connecting,
        send_wsRef := Some \<lparr>readyState = OPEN, wire = [JSON_stringify (ClientCallAccept ''c1'')]\<rparr>\<rparr>) \<and>
   acceptCall (render (Some ''chat1'') (initial_WebRTC (Some open_socket)))
       (initial_WebRTC (Some open_socket)) = (None, initial_WebRTC (Some open_socket))"
  using acceptCall_needs_call_id [of callee_ringing_c1 "Some ''chat1''"]
        acceptCall_needs_call_id [of "initial_WebRTC (Some open_socket)" "Some ''chat1''"]
  by (simp add: callee_ringing_c1_eq initial_WebRTC_def truthy_def send_result open_socket_def)

subsection \<open>Ending a call\<close>

lemma teardown_fields:
  "isEndingCallRef (teardown s) = False"
  "send_wsRef (teardown s) = send_wsRef s"
  "callState (teardown s) = Idle"
  "callId (teardown s) = None"
  "localStreamRef (teardown s) = None"
  "peerConnectionRef (teardown s) = None"
  "pendingIceRef (teardown s) = []"
  by (simp_all add: teardown_def Let_def split: option.splits)

text \<open>
  With the flag clear, \<^verbatim>\<open>endCall\<close> runs to its end: it passes the end frame to
  \<^verbatim>\<open>send\<close> when the callback holds a call id, and tears down.
\<close>

lemma endCall_result:
  "\<not> isEndingCallRef s \<Longrightarrow>
   endCall c s =
     (None, teardown (s\<lparr>isEndingCallRef := True,
                         send_wsRef := (case cl_callId c of
                                          None \<Rightarrow> send_wsRef s
                                        | Some i \<Rightarrow> if i = [] then send_wsRef s
                                                    else snd (send (ClientCallEnd i) (send_wsRef s)))\<rparr>))"
  by (simp add: endCall_def Let_def send_prop_result split: option.splits)

lemma endCall_not_ending: "\<not> isEndingCallRef s \<Longrightarrow> \<not> isEndingCallRef (snd (endCall c s))"
  by (simp add: endCall_result teardown_fields)

lemma call_endCallRef_not_ending:
  "\<not> isEndingCallRef s \<Longrightarrow> \<not> isEndingCallRef (snd (call_endCallRef s))"
  by (simp add: call_endCallRef_def endCall_not_ending split: option.splits)

lemma weave_no_arrivals: "weave ks [] = ks"
  by (induction ks) (simp_all add: arrived_now_def)

text \<open>
  The loop empties the buffer and hands the peer session the buffered candidates in
  their order, each followed by the candidates that arrived while it was being added.
\<close>

lemma flushPendingIce_eq:
  "flushPendingIce arrivals s =
     update_pc (\<lambda>pc. pc\<lparr>addedIceCandidates := addedIceCandidates pc @ weave (pendingIceRef s) arrivals\<rparr>)
       (s\<lparr>pendingIceRef := []\<rparr>)"
proof (induction arrivals s rule: flushPendingIce.induct)
  case (1 arrivals s)
  show ?case
  proof (cases "pendingIceRef s")
    case Nil
    then show ?thesis
      by (subst flushPendingIce.simps) (cases "peerConnectionRef s"; simp add: update_pc_def)
  next
    case (Cons k rest)
    with 1 [OF Cons] show ?thesis
      by (subst flushPendingIce.simps)
         (cases "peerConnectionRef s"; simp add: update_pc_def addIceCandidate_def)
  qed
qed

text \<open>
  The in-flight flag is set and cleared inside \<^verbatim>\<open>endCall\<close>; no operation and no
  callback of the peer session leaves it set, so it is clear in every state the engine
  reaches.
\<close>

lemma invoke_not_ending:
  assumes "\<not> isEndingCallRef s"
  shows "\<not> isEndingCallRef (snd (invoke c op s))"
proof (cases op)
  case (HandleCallAccepted env)
  with assms show ?thesis
    by (auto simp: handleCallAccepted_def Let_def send_prop_result update_pc_def
          intro!: call_endCallRef_not_ending split: option.splits)
next
  case (HandleCallOffer offer env)
  with assms show ?thesis
    by (auto simp: handleCallOffer_def Let_def send_prop_result update_pc_def flushPendingIce_eq
          intro!: call_endCallRef_not_ending split: option.splits)
next
  case (HandleCallAnswer answer env)
  with assms show ?thesis
    by (auto simp: handleCallAnswer_def update_pc_def
          intro!: call_endCallRef_not_ending split: option.splits)
qed (use assms in \<open>auto simp: startCall_def send_prop_result acceptCall_def endCall_not_ending
       handleCallIncoming_def handleCallRinging_def Let_def handleIceCandidate_def update_pc_def
       toggleMute_def toggleRemoteAudio_def split: option.splits\<close>)

lemma run_calls_not_ending:
  "\<not> isEndingCallRef s \<Longrightarrow> \<not> isEndingCallRef (run_calls chatId_prop ops s)"
  unfolding run_calls_def
  by (induction ops arbitrary: s) (simp_all add: turn_def commit_def invoke_not_ending)

lemma callbacks_not_ending:
  "\<not> isEndingCallRef s \<Longrightarrow>
   \<not> isEndingCallRef (snd (onicecandidate k s)) \<and>
   \<not> isEndingCallRef (ontrack streams s) \<and>
   \<not> isEndingCallRef (snd (onconnectionstatechange st s))"
  by (auto simp: onicecandidate_def ontrack_def onconnectionstatechange_def send_prop_result
        setSrcObject_def intro!: call_endCallRef_not_ending split: option.splits list.splits)

lemma turn_EndCall:
  "\<not> isEndingCallRef s \<Longrightarrow>
   turn chatId_prop s EndCall =
     commit chatId_prop
       (teardown (s\<lparr>isEndingCallRef := True,
                    send_wsRef := (case callId s of
                                     None \<Rightarrow> send_wsRef s
                                   | Some i \<Rightarrow> if i = [] then send_wsRef s
                                               else snd (send (ClientCallEnd i) (send_wsRef s)))\<rparr>))"
  by (simp add: turn_def endCall_result render_def)

lemma caller_connecting_fields:
  "isEndingCallRef caller_connecting = False"
  "callId caller_connecting = Some ''c1''"
  "callState caller_connecting = Connecting"
  "localStreamRef caller_connecting = Some microphone"
  "remoteStreamRef caller_connecting = None"
  "peerConnectionRef caller_connecting =
     Some \<lparr>remoteDescription = Some sample_answer, localDescription = Some sample_offer,
           senders = microphone, addedIceCandidates = [candidate_k2]\<rparr>"
  "pendingIceRef caller_connecting = [candidate_k1]"
  "effects caller_connecting = []"
  "send_wsRef caller_connecting =
     Some \<lparr>readyState = OPEN,
           wire = [JSON_stringify ClientCallStart,
                   JSON_stringify (ClientCallOffer ''c1'' sample_offer)]\<rparr>"
  by (simp_all add: caller_connecting_def caller_trace_def run_calls_def turn_def render_def
        commit_def startCall_def handleCallRinging_def handleCallAccepted_def
        handleIceCandidate_def handleCallAnswer_def send_prop_result send_result
        update_pc_def addIceCandidate_def createPeerConnection_def setSrcObject_def
        truthy_def media_ok_def initial_WebRTC_def open_socket_def Let_def)

text \<open>
  With a render between the two, a second \<^verbatim>\<open>endCall\<close> changes nothing: its callback
  captured the cleared call id and finds nothing left to tear down. The first passes one
  end frame to the wire when a non-empty call id is known and the socket is open, stops
  every track once and closes the peer session once.
\<close>

lemma endCall_then_render_idempotent:
  assumes g: "\<not> isEndingCallRef s"
  shows "turn chatId_prop (turn chatId_prop s EndCall) EndCall = turn chatId_prop s EndCall \<and>
   sent (turn chatId_prop s EndCall) =
     sent s @ (case callId s of
                 None \<Rightarrow> []
               | Some i \<Rightarrow> if i \<noteq> [] \<and> socket_is_open (send_wsRef s)
                           then [JSON_stringify (ClientCallEnd i)] else []) \<and>
   effects (turn chatId_prop s EndCall) =
     effects s @ stopTracks (localStreamRef s) @ stopTracks (remoteStreamRef s)
       @ (case peerConnectionRef s of None \<Rightarrow> [] | Some pc \<Rightarrow> [PeerClose])"
proof -
  let ?s1 = "turn chatId_prop s EndCall"
  have g1: "\<not> isEndingCallRef ?s1"
    using g by (simp add: turn_EndCall commit_def teardown_fields)
  have idem: "turn chatId_prop ?s1 EndCall = ?s1"
    unfolding turn_EndCall [OF g1]
    using g
    by (simp add: turn_EndCall commit_def teardown_def render_def stopTracks_def
          clearSrcObject_def Let_def split: option.splits)
  have frames: "sent ?s1 =
     sent s @ (case callId s of
                 None \<Rightarrow> []
               | Some i \<Rightarrow> if i \<noteq> [] \<and> socket_is_open (send_wsRef s)
                           then [JSON_stringify (ClientCallEnd i)] else [])"
    using g
    by (simp add: turn_EndCall commit_def sent_def teardown_fields send_result socket_is_open_def
          split: option.splits)
  have eff: "effects ?s1 =
     effects s @ stopTracks (localStreamRef s) @ stopTracks (remoteStreamRef s)
       @ (case peerConnectionRef s of None \<Rightarrow> [] | Some pc \<Rightarrow> [PeerClose])"
    using g
    by (simp add: turn_EndCall commit_def teardown_def Let_def split: option.splits)
  from idem frames eff show ?thesis by simp
qed

text \<open>
  C2 does not hold of the code. The caller is Connecting for call c1 on an open socket,
  with the microphone and the peer session held; the wire holds the start and the offer
  frame. The \<^verbatim>\<open>endCall\<close> callback of that render is invoked twice in immediate
  succession. The in-flight flag does not hold back the second invocation, since it is
  set and cleared within the first; the callback still holds the call id it captured, so
  the second invocation writes a second \<^verbatim>\<open>call.end\<close> frame. The media is torn down
  once, by the first invocation: one track stop and one close of the peer session.
\<close>

theorem endCall_same_callback_twice:
  "isEndingCallRef caller_connecting = False \<and>
   isEndingCallRef (snd (endCall (render (Some ''chat1'') caller_connecting) caller_connecting))
     = False \<and>
   sent (snd (endCall (render (Some ''chat1'') caller_connecting) caller_connecting))
     = [JSON_stringify ClientCallStart, JSON_stringify (ClientCallOffer ''c1'' sample_offer),
        JSON_stringify (ClientCallEnd ''c1'')] \<and>
   sent (snd (endCall (render (Some ''chat1'') caller_connecting)
           (snd (endCall (render (Some ''chat1'') caller_connecting) caller_connecting))))
     = [JSON_stringify ClientCallStart, JSON_stringify (ClientCallOffer ''c1'' sample_offer),
        JSON_stringify (ClientCallEnd ''c1''), JSON_stringify (ClientCallEnd ''c1'')] \<and>
   effects (snd (endCall (render (Some ''chat1'') caller_connecting)
           (snd (endCall (render (Some ''chat1'') caller_connecting) caller_connecting))))
     = [TrackStop 1, PeerClose]"
  by (simp add: endCall_result teardown_fields teardown_def render_def caller_connecting_fields
        sent_def send_result stopTracks_def microphone_def Let_def)

subsection \<open>Declining a call\<close>

lemma sent_frames_on: "sent s = frames_on (send_wsRef s)"
  by (simp add: sent_def frames_on_def)

lemma reject_send:
  "\<not> is_call_reject (JSON_stringify payload) \<Longrightarrow>
   filter is_call_reject (frames_on (snd (send payload r))) = filter is_call_reject (frames_on r)"
  by (simp add: send_result frames_on_def split: option.splits)

lemma reject_endCall:
  "filter is_call_reject (frames_on (send_wsRef (snd (endCall c s))))
     = filter is_call_reject (frames_on (send_wsRef s))"
proof (cases "isEndingCallRef s")
  case True
  then show ?thesis by (simp add: endCall_def)
next
  case False
  then show ?thesis
    by (simp add: endCall_result teardown_fields reject_send is_call_reject_def
          split: option.splits)
qed

lemma reject_call_endCallRef:
  "filter is_call_reject (frames_on (send_wsRef (snd (call_endCallRef s))))
     = filter is_call_reject (frames_on (send_wsRef s))"
  by (simp add: call_endCallRef_def reject_endCall split: option.splits)

lemma reject_handleCallAccepted:
  "filter is_call_reject (frames_on (send_wsRef (snd (handleCallAccepted c env s))))
     = filter is_call_reject (frames_on (send_wsRef s))"
  by (simp add: handleCallAccepted_def Let_def send_prop_result update_pc_def
        reject_call_endCallRef reject_send is_call_reject_def split: option.splits)

lemma reject_handleCallOffer:
  "filter is_call_reject (frames_on (send_wsRef (snd (handleCallOffer c offer env s))))
     = filter is_call_reject (frames_on (send_wsRef s))"
  by (simp add: handleCallOffer_def Let_def send_prop_result update_pc_def flushPendingIce_eq
        reject_call_endCallRef reject_send is_call_reject_def split: option.splits)

lemma reject_handleCallAnswer:
  "filter is_call_reject (frames_on (send_wsRef (snd (handleCallAnswer answer env s))))
     = filter is_call_reject (frames_on (send_wsRef s))"
  by (simp add: handleCallAnswer_def update_pc_def reject_call_endCallRef split: option.splits)

text \<open>No operation the hook returns puts a \<^verbatim>\<open>call.reject\<close> frame on the wire.\<close>

lemma invoke_sends_no_reject:
  "filter is_call_reject (sent (snd (invoke c op s))) = filter is_call_reject (sent s)"
  unfolding sent_frames_on
  by (cases op)
     (simp_all add: reject_endCall reject_handleCallAccepted reject_handleCallOffer
        reject_handleCallAnswer startCall_def acceptCall_def handleCallIncoming_def
        handleCallRinging_def handleIceCandidate_def toggleMute_def toggleRemoteAudio_def
        update_pc_def send_prop_result reject_send is_call_reject_def Let_def
        split: option.splits)

text \<open>Nor does a callback of the peer session or the cleanup on unmount.\<close>

lemma callbacks_send_no_reject:
  "filter is_call_reject (sent (snd (onicecandidate k s))) = filter is_call_reject (sent s) \<and>
   filter is_call_reject (sent (ontrack streams s)) = filter is_call_reject (sent s) \<and>
   filter is_call_reject (sent (snd (onconnectionstatechange st s))) = filter is_call_reject (sent s) \<and>
   filter is_call_reject (sent (snd (unmount s))) = filter is_call_reject (sent s)"
  unfolding sent_frames_on
  by (simp add: onicecandidate_def ontrack_def onconnectionstatechange_def unmount_def
        reject_call_endCallRef send_prop_result reject_send is_call_reject_def
        split: option.splits list.splits)

text \<open>
  C7, as stated, fails. The callee is Ringing for call c1 on an open socket. The hook
  returns no \<^verbatim>\<open>rejectCall\<close>, and whichever of the operations it does return is invoked,
  with whatever arguments, no \<^verbatim>\<open>call.reject\<close> frame for c1 is on the wire afterwards.
\<close>

theorem no_rejectCall_counterexample:
  "\<not> (\<exists>op. JSON_stringify (ClientCallReject ''c1'')
              \<in> set (sent (snd (invoke (render (Some ''chat1'') callee_ringing_c1) op
                                  callee_ringing_c1))))"
proof
  assume "\<exists>op. JSON_stringify (ClientCallReject ''c1'')
              \<in> set (sent (snd (invoke (render (Some ''chat1'') callee_ringing_c1) op
                                  callee_ringing_c1)))"
  then obtain op where
    "JSON_stringify (ClientCallReject ''c1'')
       \<in> set (sent (snd (invoke (render (Some ''chat1'') callee_ringing_c1) op callee_ringing_c1)))"
    by blast
  then have "JSON_stringify (ClientCallReject ''c1'')
       \<in> set (filter is_call_reject
                (sent (snd (invoke (render (Some ''chat1'') callee_ringing_c1) op callee_ringing_c1))))"
    by (simp add: is_call_reject_def)
  then show False
    unfolding invoke_sends_no_reject
    by (simp add: sent_def callee_ringing_c1_eq initial_WebRTC_def open_socket_def)
qed

lemma callee_ringing_with_media_fields:
  "isEndingCallRef callee_ringing_with_media = False"
  "callState callee_ringing_with_media = Ringing"
  "callId callee_ringing_with_media = Some ''c1''"
  "localStreamRef callee_ringing_with_media = Some microphone"
  "remoteStreamRef callee_ringing_with_media = None"
  "peerConnectionRef callee_ringing_with_media =
     Some \<lparr>remoteDescription = Some sample_offer, localDescription = Some sample_answer,
           senders = microphone, addedIceCandidates = []\<rparr>"
  "effects callee_ringing_with_media = []"
  "send_wsRef callee_ringing_with_media =
     Some \<lparr>readyState = OPEN,
           wire = [JSON_stringify (ClientCallAccept ''c1''),
                   JSON_stringify (ClientCallAnswer ''c1'' sample_answer)]\<rparr>"
  by (simp_all add: callee_ringing_with_media_def run_calls_def turn_def render_def commit_def
        handleCallIncoming_def acceptCall_def handleCallOffer_def flushPendingIce_eq
        send_prop_result send_result update_pc_def createPeerConnection_def setSrcObject_def
        media_ok_def initial_WebRTC_def open_socket_def Let_def)

text \<open>
  C7, amended. The engine has no reject operation: no operation the hook returns ever
  puts a \<^verbatim>\<open>call.reject\<close> frame on the wire. In the Ringing state, with a non-empty call
  id known and the in-flight flag clear, the call is declined with \<^verbatim>\<open>endCall\<close>: the
  engine goes to Idle and forgets the call id, and a \<^verbatim>\<open>call.end\<close> frame carrying the
  call id is written if the socket is open. \<^verbatim>\<open>endCall\<close> acquires no media: no local
  stream and no peer session is held afterwards, and a stream or a peer session that
  was still held (as after a repeated incoming signal for the tracked call) is stopped
  and closed once.
\<close>

theorem decline_is_endCall:
  "filter is_call_reject (sent (snd (invoke c op s))) = filter is_call_reject (sent s) \<and>
   (\<forall>i. callState s = Ringing \<and> callId s = Some i \<and> i \<noteq> [] \<and> \<not> isEndingCallRef s \<longrightarrow>
      callState (snd (invoke (render chatId_prop s) EndCall s)) = Idle \<and>
      callId (snd (invoke (render chatId_prop s) EndCall s)) = None \<and>
      localStreamRef (snd (invoke (render chatId_prop s) EndCall s)) = None \<and>
      peerConnectionRef (snd (invoke (render chatId_prop s) EndCall s)) = None \<and>
      effects (snd (invoke (render chatId_prop s) EndCall s)) =
        effects s @ stopTracks (localStreamRef s) @ stopTracks (remoteStreamRef s)
          @ (case peerConnectionRef s of None \<Rightarrow> [] | Some pc \<Rightarrow> [PeerClose]) \<and>
      sent (snd (invoke (render chatId_prop s) EndCall s)) =
        sent s @ (if socket_is_open (send_wsRef s) then [JSON_stringify (ClientCallEnd i)] else []))"
  (is "?none \<and> (\<forall>i. ?ringing i \<longrightarrow> ?declined i)")
proof (rule conjI)
  show ?none
    by (rule invoke_sends_no_reject)
next
  show "\<forall>i. ?ringing i \<longrightarrow> ?declined i"
  proof (rule allI, rule impI)
    fix i
    assume "?ringing i"
    then show "?declined i"
      by (simp add: endCall_result render_def teardown_def Let_def sent_def
            send_result socket_is_open_def split: option.splits)
  qed
qed

theorem decline_is_endCall_witness:
  "callState callee_ringing_c1 = Ringing \<and>
   callState (snd (invoke (render (Some ''chat1'') callee_ringing_c1) EndCall callee_ringing_c1)) = Idle \<and>
   localStreamRef (snd (invoke (render (Some ''chat1'') callee_ringing_c1) EndCall callee_ringing_c1))
     = None \<and>
   effects (snd (invoke (render (Some ''chat1'') callee_ringing_c1) EndCall callee_ringing_c1)) = [] \<and>
   sent (snd (invoke (render (Some ''chat1'') callee_ringing_c1) EndCall callee_ringing_c1))
     = [JSON_stringify (ClientCallEnd ''c1'')] \<and>
   callState callee_ringing_with_media = Ringing \<and>
   localStreamRef callee_ringing_with_media = Some microphone \<and>
   localStreamRef (snd (invoke (render (Some ''chat1'') callee_ringing_with_media) EndCall
                          callee_ringing_with_media)) = None \<and>
   effects (snd (invoke (render (Some ''chat1'') callee_ringing_with_media) EndCall
                   callee_ringing_with_media)) = [TrackStop 1, PeerClose] \<and>
   sent (snd (invoke (render (Some ''chat1'') callee_ringing_with_media) EndCall
                callee_ringing_with_media))
     = [JSON_stringify (ClientCallAccept ''c1''),
        JSON_stringify (ClientCallAnswer ''c1'' sample_answer),
        JSON_stringify (ClientCallEnd ''c1'')]"
  using decline_is_endCall [of "render (Some ''chat1'') callee_ringing_c1" EndCall callee_ringing_c1
          "Some ''chat1''"]
        decline_is_endCall [of "render (Some ''chat1'') callee_ringing_with_media" EndCall
          callee_ringing_with_media "Some ''chat1''"]
  by (simp add: callee_ringing_c1_eq callee_ringing_with_media_fields initial_WebRTC_def sent_def
        socket_is_open_def open_socket_def stopTracks_def microphone_def)

subsection \<open>ICE candidates\<close>

text \<open>
  A candidate is buffered while there is no peer session or the session has no remote
  description, and handed to the session at once when it has one.
\<close>

lemma handleIceCandidate_buffers_or_applies:
  "handleIceCandidate (Some k) s =
     (case peerConnectionRef s of
        None \<Rightarrow> s\<lparr>pendingIceRef := pendingIceRef s @ [k]\<rparr>
      | Some pc \<Rightarrow>
          if remoteDescription pc = None then s\<lparr>pendingIceRef := pendingIceRef s @ [k]\<rparr>
          else s\<lparr>peerConnectionRef :=
                   Some (pc\<lparr>addedIceCandidates := addedIceCandidates pc @ [k]\<rparr>)\<rparr>)"
  by (simp add: handleIceCandidate_def update_pc_def addIceCandidate_def split: option.splits)

text \<open>
  The callee's offer path: when the media stack succeeds, the new peer session has the
  offer as its remote description, the buffer is empty, and the session has been handed
  every buffered candidate, each followed by the candidates that arrived while it was
  being added. When none arrives during the loop, that is the buffer in arrival order.
\<close>

lemma handleCallOffer_drains:
  assumes "cl_callId c = Some i" and "i \<noteq> []"
    and "getUserMedia env = Some stream" and "setRemoteDescription_ok env"
    and "createAnswer env = Some answer" and "setLocalDescription_ok env"
  shows "pendingIceRef (snd (handleCallOffer c offer env s)) = [] \<and>
         map_option addedIceCandidates (peerConnectionRef (snd (handleCallOffer c offer env s)))
           = Some (weave (pendingIceRef s) (iceDuringFlush env)) \<and>
         (iceDuringFlush env = [] \<longrightarrow>
            map_option addedIceCandidates (peerConnectionRef (snd (handleCallOffer c offer env s)))
              = Some (pendingIceRef s)) \<and>
         map_option remoteDescription (peerConnectionRef (snd (handleCallOffer c offer env s)))
           = Some (Some offer)"
  using assms
  by (simp add: handleCallOffer_def Let_def send_prop_result update_pc_def flushPendingIce_eq
        createPeerConnection_def weave_no_arrivals)

text \<open>
  A candidate that arrives while the loop is adding the first of two buffered candidates
  reaches the peer session ahead of the second.
\<close>

lemma flush_overtaken:
  "weave [candidate_k1, candidate_k2] [[k3]] = [candidate_k1, k3, candidate_k2]"
  by (simp add: arrived_now_def)

text \<open>
  C1 does not hold of the caller's answer path. The caller starts a call, learns the
  call id c1, and on acceptance creates the peer session and sends the offer. Candidate k1
  arrives before the answer and is buffered. The answer arrives and becomes the remote
  description, but \<^verbatim>\<open>handleCallAnswer\<close> does not empty the buffer. Candidate k2 arrives
  next and is handed to the session at once. The session has then been given k2 alone,
  k1 is still in the buffer, and ending the call discards it: k1 is never applied.
\<close>

theorem answer_path_never_drains:
  "pendingIceRef (run_calls (Some ''chat1'') caller_trace (initial_WebRTC (Some open_socket)))
     = [candidate_k1] \<and>
   map_option addedIceCandidates
     (peerConnectionRef (run_calls (Some ''chat1'') caller_trace (initial_WebRTC (Some open_socket))))
     = Some [candidate_k2] \<and>
   map_option remoteDescription
     (peerConnectionRef (run_calls (Some ''chat1'') caller_trace (initial_WebRTC (Some open_socket))))
     = Some (Some sample_answer) \<and>
   pendingIceRef (run_calls (Some ''chat1'') (caller_trace @ [EndCall])
                    (initial_WebRTC (Some open_socket))) = [] \<and>
   peerConnectionRef (run_calls (Some ''chat1'') (caller_trace @ [EndCall])
                    (initial_WebRTC (Some open_socket))) = None"
  by (simp add: caller_trace_def run_calls_def turn_def render_def commit_def
        startCall_def handleCallRinging_def handleCallAccepted_def handleIceCandidate_def
        handleCallAnswer_def endCall_def teardown_def send_prop_result send_result
        update_pc_def addIceCandidate_def createPeerConnection_def setSrcObject_def
        clearSrcObject_def stopTracks_def truthy_def media_ok_def initial_WebRTC_def
        open_socket_def Let_def)

end
